theory Spec2Isabelle
  imports Main "HOL-Library.Word"
begin

section \<open>Shared data model\<close>

text \<open>
  Go's \<^verbatim>\<open>error\<close> values are opaque to the code under study: they are only
  compared with \<^verbatim>\<open>nil\<close> and handed back to the caller. An \<open>error option\<close> is a Go
  \<^verbatim>\<open>error\<close>, with \<open>None\<close> for \<^verbatim>\<open>nil\<close>.
\<close>

datatype error = Error string

text \<open>A \<^verbatim>\<open>time.Time\<close> is an opaque instant; the orchestrator only passes it on.\<close>

type_synonym time = int

section \<open>Symbol discovery (pkg/cmd/sync.go)\<close>

text \<open>
  Modelled from the spec: \<^verbatim>\<open>types.Balance\<close> and \<^verbatim>\<open>types.Market\<close> are declared outside
  the given sources. A balance is represented by the value of its \<^verbatim>\<open>Total()\<close>, a signed
  fixed-point quantity (the source compares it with \<^verbatim>\<open>> 0\<close> and \<^verbatim>\<open>== 0\<close>); the balance
  sheet \<^verbatim>\<open>map[string]Balance\<close> is a partial map from currency codes. A market carries the
  three fields the source reads.
\<close>

type_synonym balances = "string \<rightharpoonup> int"

record market =
  Symbol :: string
  BaseCurrency :: string
  QuoteCurrency :: string

text \<open>\<^verbatim>\<open>stringSliceContains\<close>: linear search, first hit returns true.\<close>

fun stringSliceContains :: "string list \<Rightarrow> string \<Rightarrow> bool" where
  "stringSliceContains [] needle = False"
| "stringSliceContains (s # rest) needle =
     (if s = needle then True else stringSliceContains rest needle)"

definition fiatCurrencies :: "string list" where
  "fiatCurrencies = [''USDC'', ''USDT'', ''USD'', ''TWD'', ''EUR'', ''GBP'']"

text \<open>
  The first loop of \<^verbatim>\<open>findPossibleSymbols\<close>: a reference currency is kept when the
  balance sheet has it (\<^verbatim>\<open>ok\<close>) and its total is \<^verbatim>\<open>> 0\<close>.
\<close>

fun collectFiatAssets :: "balances \<Rightarrow> string list \<Rightarrow> string list \<Rightarrow> string list" where
  "collectFiatAssets bal [] fiatAssets = fiatAssets"
| "collectFiatAssets bal (currency # rest) fiatAssets =
     (case bal currency of
        Some amount \<Rightarrow>
          if amount > 0 then collectFiatAssets bal rest (fiatAssets @ [currency])
          else collectFiatAssets bal rest fiatAssets
      | None \<Rightarrow> collectFiatAssets bal rest fiatAssets)"

text \<open>
  The second loop fills \<^verbatim>\<open>symbolMap\<close>, a \<^verbatim>\<open>map[string]struct{}\<close>. The model keeps the
  keys of that map as a list without repetitions, in the order of first insertion:
  storing a key that is already there changes nothing. A market is skipped
  (\<^verbatim>\<open>continue\<close>) when its quote currency is not a fiat asset, or when its base
  currency is missing from the balance sheet or has a total \<^verbatim>\<open>== 0\<close>.
\<close>

definition symbolMap_store :: "string list \<Rightarrow> string \<Rightarrow> string list" where
  "symbolMap_store keys k = (if k \<in> set keys then keys else keys @ [k])"

fun collectSymbols :: "balances \<Rightarrow> string list \<Rightarrow> market list \<Rightarrow> string list \<Rightarrow> string list" where
  "collectSymbols bal fiatAssets [] symbolMap = symbolMap"
| "collectSymbols bal fiatAssets (m # markets) symbolMap =
     (if \<not> stringSliceContains fiatAssets (QuoteCurrency m)
      then collectSymbols bal fiatAssets markets symbolMap
      else case bal (BaseCurrency m) of
             None \<Rightarrow> collectSymbols bal fiatAssets markets symbolMap
           | Some amount \<Rightarrow>
               if amount = 0 then collectSymbols bal fiatAssets markets symbolMap
               else collectSymbols bal fiatAssets markets (symbolMap_store symbolMap (Symbol m)))"

text \<open>
  The last loop ranges over \<^verbatim>\<open>symbolMap\<close> and appends every key once. Go leaves the
  iteration order of a map unspecified; the model returns the keys in insertion order,
  and the theorems below speak only of the set of returned symbols and of their
  distinctness, which no iteration order changes.
\<close>

definition possibleSymbols :: "balances \<Rightarrow> market list \<Rightarrow> string list" where
  "possibleSymbols bal markets =
     collectSymbols bal (collectFiatAssets bal fiatCurrencies []) markets []"

section \<open>The sync orchestrator (pkg/cmd/sync.go)\<close>

text \<open>
  Modelled from the spec: \<^verbatim>\<open>bbgo.ExchangeSession\<close> and \<^verbatim>\<open>bbgo.Environment\<close> are declared
  outside the given sources. A session carries the fields the source reads (\<^verbatim>\<open>Name\<close>,
  \<^verbatim>\<open>Exchange\<close>, \<^verbatim>\<open>IsolatedMargin\<close>, \<^verbatim>\<open>IsolatedMarginSymbol\<close>) and what its collaborator
  calls yield: \<open>InitResult\<close> is the error returned by \<^verbatim>\<open>session.Init\<close>, \<open>Balances\<close>
  and \<open>Markets\<close> are what \<^verbatim>\<open>session.Account.Balances()\<close> and \<^verbatim>\<open>session.Markets()\<close>
  return once \<^verbatim>\<open>Init\<close> has succeeded. The exchange handle is opaque.
\<close>

record session =
  Name :: string
  Exchange :: string
  IsolatedMargin :: bool
  IsolatedMarginSymbol :: string
  InitResult :: "error option"
  Balances :: balances
  Markets :: "market list"

text \<open>
  The calls that leave the orchestrator are recorded, in order, each with the error it
  returned: \<^verbatim>\<open>session.Init\<close>, \<^verbatim>\<open>environ.TradeSync.SyncTrades\<close> and
  \<^verbatim>\<open>environ.TradeSync.SyncOrders\<close> with their arguments (exchange, symbol, start
  time). The engine is a collaborator with a state of its own: it maps a call and its
  state to the returned error and the next state.
\<close>

datatype call =
  SyncTrades string string time
| SyncOrders string string time

datatype event =
  InitCall string "error option"
| EngineCall call "error option"

type_synonym 'st engine = "call \<Rightarrow> 'st \<Rightarrow> error option \<times> 'st"

text \<open>
  \<^verbatim>\<open>findPossibleSymbols\<close>: \<^verbatim>\<open>Init\<close> first, its error returned as it is; then the three
  loops above on the session's balances and markets.
\<close>

definition findPossibleSymbols :: "session \<Rightarrow> (error + string list) \<times> event list" where
  "findPossibleSymbols session =
     (case InitResult session of
        Some err \<Rightarrow> (Inl err, [InitCall (Name session) (Some err)])
      | None \<Rightarrow>
          (Inr (possibleSymbols (Balances session) (Markets session)),
           [InitCall (Name session) None]))"

text \<open>
  \<^verbatim>\<open>syncSessionSymbol\<close>: the isolated-margin substitution, then \<^verbatim>\<open>SyncTrades\<close>, then
  \<^verbatim>\<open>SyncOrders\<close>, each error returned at once.
\<close>

definition syncSessionSymbol ::
  "'st engine \<Rightarrow> session \<Rightarrow> string \<Rightarrow> time \<Rightarrow> 'st \<Rightarrow> error option \<times> 'st \<times> event list" where
  "syncSessionSymbol eng session symbol startTime st =
     (let symbol' = (if IsolatedMargin session then IsolatedMarginSymbol session else symbol);
          trades = SyncTrades (Exchange session) symbol' startTime
      in case eng trades st of
           (Some err, st1) \<Rightarrow> (Some err, st1, [EngineCall trades (Some err)])
         | (None, st1) \<Rightarrow>
             (let orders = SyncOrders (Exchange session) symbol' startTime
              in case eng orders st1 of
                   (r, st2) \<Rightarrow> (r, st2, [EngineCall trades None, EngineCall orders r])))"

text \<open>The loop \<^verbatim>\<open>for _, s := range symbols\<close> (lines 109-113 and 128-132).\<close>

fun syncSymbols ::
  "'st engine \<Rightarrow> session \<Rightarrow> time \<Rightarrow> string list \<Rightarrow> 'st \<Rightarrow> error option \<times> 'st \<times> event list" where
  "syncSymbols eng session startTime [] st = (None, st, [])"
| "syncSymbols eng session startTime (s # symbols) st =
     (case syncSessionSymbol eng session s startTime st of
        (Some err, st1, tr1) \<Rightarrow> (Some err, st1, tr1)
      | (None, st1, tr1) \<Rightarrow>
          (case syncSymbols eng session startTime symbols st1 of
             (r, st2, tr2) \<Rightarrow> (r, st2, tr1 @ tr2)))"

text \<open>
  The block \<^verbatim>\<open>if len(symbols) == 0 { symbols, err = findPossibleSymbols(...) }\<close>
  (lines 100-107 and 119-126): the value of \<^verbatim>\<open>symbols\<close> after it, or the error.
\<close>

definition resolveSymbols :: "session \<Rightarrow> string list \<Rightarrow> (error + string list) \<times> event list" where
  "resolveSymbols session symbols =
     (if symbols = [] then findPossibleSymbols session else (Inr symbols, []))"

text \<open>
  The loop over \<^verbatim>\<open>environ.Sessions()\<close> (lines 118-137). The variable \<^verbatim>\<open>symbols\<close> is
  declared before the loop, so the value it has after one iteration is the value the
  next iteration starts with; the model passes it on. Each iteration ends with the call
  of line 134 on the flag value \<^verbatim>\<open>symbol\<close>.
\<close>

fun syncAllSessions ::
  "'st engine \<Rightarrow> string \<Rightarrow> time \<Rightarrow> string list \<Rightarrow> session list \<Rightarrow> 'st
     \<Rightarrow> error option \<times> 'st \<times> event list" where
  "syncAllSessions eng symbol startTime symbols [] st = (None, st, [])"
| "syncAllSessions eng symbol startTime symbols (session # rest) st =
     (case resolveSymbols session symbols of
        (Inl err, tr0) \<Rightarrow> (Some err, st, tr0)
      | (Inr symbols', tr0) \<Rightarrow>
          (case syncSymbols eng session startTime symbols' st of
             (Some err, st1, tr1) \<Rightarrow> (Some err, st1, tr0 @ tr1)
           | (None, st1, tr1) \<Rightarrow>
               (case syncSessionSymbol eng session symbol startTime st1 of
                  (Some err, st2, tr2) \<Rightarrow> (Some err, st2, tr0 @ tr1 @ tr2)
                | (None, st2, tr2) \<Rightarrow>
                    (case syncAllSessions eng symbol startTime symbols' rest st2 of
                       (r, st3, tr3) \<Rightarrow> (r, st3, tr0 @ tr1 @ tr2 @ tr3)))))"

text \<open>
  Modelled from the spec: the environment is the list of its sessions, in the order in
  which \<^verbatim>\<open>range environ.Sessions()\<close> visits them; \<^verbatim>\<open>environ.Session(name)\<close> looks a
  session up by its name.
\<close>

fun environ_Session :: "session list \<Rightarrow> string \<Rightarrow> session option" where
  "environ_Session [] name = None"
| "environ_Session (s # env) name = (if Name s = name then Some s else environ_Session env name)"

text \<open>
  \<^verbatim>\<open>SyncCmd.RunE\<close> from line 79 on. Its inputs are the environment built from the
  configuration, the values of the flags \<^verbatim>\<open>--session\<close> and \<^verbatim>\<open>--symbol\<close> (both flags are
  registered in \<^verbatim>\<open>init\<close>, so reading them does not fail), the resolved start time, and
  the engine with its state.
\<close>

definition SyncCmd_RunE ::
  "session list \<Rightarrow> string \<Rightarrow> string \<Rightarrow> time \<Rightarrow> 'st engine \<Rightarrow> 'st
     \<Rightarrow> error option \<times> 'st \<times> event list" where
  "SyncCmd_RunE env sessionName symbol startTime eng st =
     (let symbols = (if symbol \<noteq> [] then [symbol] else [])
      in if sessionName \<noteq> [] then
           (case environ_Session env sessionName of
              None \<Rightarrow> (Some (Error (''session '' @ sessionName @ '' not found'')), st, [])
            | Some session \<Rightarrow>
                (case resolveSymbols session symbols of
                   (Inl err, tr0) \<Rightarrow> (Some err, st, tr0)
                 | (Inr symbols', tr0) \<Rightarrow>
                     (case syncSymbols eng session startTime symbols' st of
                        (r, st1, tr1) \<Rightarrow> (r, st1, tr0 @ tr1))))
         else syncAllSessions eng symbol startTime symbols env st)"

section \<open>The discovery rule in the spec's words\<close>

text \<open>
  A currency "appears in the balances with a strictly positive total", respectively
  with a total that is not zero.
\<close>

definition hasPositive :: "balances \<Rightarrow> string \<Rightarrow> bool" where
  "hasPositive bal c = (case bal c of Some amount \<Rightarrow> 0 < amount | None \<Rightarrow> False)"

definition hasNonZero :: "balances \<Rightarrow> string \<Rightarrow> bool" where
  "hasNonZero bal c = (case bal c of Some amount \<Rightarrow> amount \<noteq> 0 | None \<Rightarrow> False)"

text \<open>
  The fiat-asset set: the currencies of the reference list that appear in the balances
  with a strictly positive total.
\<close>

definition fiatAssetSet :: "balances \<Rightarrow> string set" where
  "fiatAssetSet bal = {c \<in> set fiatCurrencies. hasPositive bal c}"

section \<open>The pairs the orchestrator processes\<close>

text \<open>
  The engine calls of one (session, symbol) pair: the symbol is replaced by the
  session's isolated-margin symbol when the session is an isolated-margin session.
\<close>

definition tradesCall :: "time \<Rightarrow> session \<times> string \<Rightarrow> call" where
  "tradesCall t p =
     SyncTrades (Exchange (fst p))
       (if IsolatedMargin (fst p) then IsolatedMarginSymbol (fst p) else snd p) t"

definition ordersCall :: "time \<Rightarrow> session \<times> string \<Rightarrow> call" where
  "ordersCall t p =
     SyncOrders (Exchange (fst p))
       (if IsolatedMargin (fst p) then IsolatedMarginSymbol (fst p) else snd p) t"

text \<open>The events of pairs that are synchronised without error, one after the other.\<close>

definition okCalls :: "time \<Rightarrow> (session \<times> string) list \<Rightarrow> event list" where
  "okCalls t ps =
     concat (map (\<lambda>p. [EngineCall (tradesCall t p) None, EngineCall (ordersCall t p) None]) ps)"

fun isEngineCall :: "event \<Rightarrow> bool" where
  "isEngineCall (EngineCall c r) = True"
| "isEngineCall (InitCall n r) = False"

definition engineEvents :: "event list \<Rightarrow> event list" where
  "engineEvents tr = filter isEngineCall tr"




section \<open>The exchange stream (FTX stream, second unnamed source file)\<close>

text \<open>
  Modelled from the spec: \<^verbatim>\<open>types.Channel\<close> is a string type declared outside the given
  sources, and \<^verbatim>\<open>types.BookChannel\<close> is its order-book value.
\<close>

type_synonym Channel = string

definition BookChannel :: Channel where
  "BookChannel = ''book''"

text \<open>
  Modelled from the spec: \<^verbatim>\<open>websocketRequest\<close>, its \<^verbatim>\<open>operation\<close> and \<^verbatim>\<open>channel\<close>
  constants and \<^verbatim>\<open>newLoginRequest\<close> are declared outside the given sources. A request
  has an operation, a channel, a market and login arguments; a struct literal leaves
  the fields it does not name at their zero value. The login request keeps the three
  values it is built from (API key, secret, timestamp).
\<close>

datatype operation = subscribe | unsubscribe | login

datatype channel = orderbook | trades | ticker

record websocketRequest =
  Operation :: operation
  Channel :: "channel option"
  Market :: string
  Login :: "(string \<times> string \<times> time) option"

definition newLoginRequest :: "string \<Rightarrow> string \<Rightarrow> time \<Rightarrow> websocketRequest" where
  "newLoginRequest key secret t =
     \<lparr>Operation = login, Channel = None, Market = [], Login = Some (key, secret, t)\<rparr>"

text \<open>
  Modelled from the spec: \<^verbatim>\<open>TrimUpperString\<close> is declared outside the given sources;
  the spec has the symbol "normalized to uppercase, trimmed". Strings are byte
  strings: white space is the ASCII white space, upper-casing maps the ASCII letters
  \<open>a\<close> to \<open>z\<close> and leaves every other byte as it is.
\<close>

definition isSpace :: "char \<Rightarrow> bool" where
  "isSpace c = (of_char c \<in> set [9, 10, 11, 12, 13, 32 :: nat])"

definition toUpperChar :: "char \<Rightarrow> char" where
  "toUpperChar c =
     (let n = of_char c :: nat in if 97 \<le> n \<and> n \<le> 122 then char_of (n - 32) else c)"

definition TrimSpace :: "string \<Rightarrow> string" where
  "TrimSpace s = rev (dropWhile isSpace (rev (dropWhile isSpace s)))"

definition TrimUpperString :: "string \<Rightarrow> string" where
  "TrimUpperString original = map toUpperChar (TrimSpace original)"

text \<open>
  Modelled from the spec: \<^verbatim>\<open>WebsocketService\<close> is declared outside the given sources.
  The stream owns it exclusively, so the model keeps, inside the stream, the key and
  secret the service was built with and the calls the stream has made on it, in order:
  \<^verbatim>\<open>Subscribe(request)\<close> enqueues a request, \<^verbatim>\<open>Connect\<close> establishes the transport,
  \<^verbatim>\<open>Close\<close> tears it down. The field \<^verbatim>\<open>publicOnly\<close> is an \<^verbatim>\<open>int32\<close>.
\<close>

datatype wsCall =
  WsSubscribe websocketRequest
| WsConnect
| WsClose

record Stream =
  wsService_key :: string
  wsService_secret :: string
  publicOnly :: "32 word"
  wsCalls :: "wsCall list"

definition NewStream :: "string \<Rightarrow> string \<Rightarrow> Stream" where
  "NewStream key secret =
     \<lparr>wsService_key = key, wsService_secret = secret, publicOnly = 0, wsCalls = []\<rparr>"

definition wsService_Subscribe :: "websocketRequest \<Rightarrow> Stream \<Rightarrow> Stream" where
  "wsService_Subscribe request s = s\<lparr>wsCalls := wsCalls s @ [WsSubscribe request]\<rparr>"

text \<open>
  \<^verbatim>\<open>Connect\<close>: \<open>now\<close> is the value of \<^verbatim>\<open>time.Now()\<close> and \<open>connectResult\<close> the error
  returned by the transport's \<^verbatim>\<open>Connect\<close>.
\<close>

definition Stream_Connect :: "time \<Rightarrow> error option \<Rightarrow> Stream \<Rightarrow> error option \<times> Stream" where
  "Stream_Connect now connectResult s =
     (let s1 = (if publicOnly s = 0
                then wsService_Subscribe
                       (newLoginRequest (wsService_key s) (wsService_secret s) now) s
                else s);
          s2 = s1\<lparr>wsCalls := wsCalls s1 @ [WsConnect]\<rparr>
      in case connectResult of
           Some err \<Rightarrow> (Some err, s2)
         | None \<Rightarrow> (None, s2))"

definition Stream_SetPublicOnly :: "Stream \<Rightarrow> Stream" where
  "Stream_SetPublicOnly s = s\<lparr>publicOnly := 1\<rparr>"

text \<open>
  \<^verbatim>\<open>Subscribe\<close>: the body of \<^verbatim>\<open>if channel != types.BookChannel\<close> holds a comment only,
  so both branches continue with the same stream; the third argument is ignored.
\<close>

definition Stream_Subscribe :: "Channel \<Rightarrow> string \<Rightarrow> Stream \<Rightarrow> Stream" where
  "Stream_Subscribe chan symbol s =
     (let s0 = (if chan \<noteq> BookChannel then s else s)
      in wsService_Subscribe
           \<lparr>Operation = subscribe, Channel = Some orderbook,
            Market = TrimUpperString symbol, Login = None\<rparr> s0)"

text \<open>\<^verbatim>\<open>Close\<close>: a stream built by \<^verbatim>\<open>NewStream\<close> always has its service.\<close>

definition Stream_Close :: "error option \<Rightarrow> Stream \<Rightarrow> error option \<times> Stream" where
  "Stream_Close closeResult s = (closeResult, s\<lparr>wsCalls := wsCalls s @ [WsClose]\<rparr>)"

text \<open>
  The life of a stream instance: any sequence of calls of its methods, each with the
  values its collaborators return.
\<close>

datatype streamOp =
  DoConnect time "error option"
| DoSetPublicOnly
| DoSubscribe Channel string
| DoClose "error option"

fun applyOp :: "streamOp \<Rightarrow> Stream \<Rightarrow> Stream" where
  "applyOp (DoConnect now r) s = snd (Stream_Connect now r s)"
| "applyOp DoSetPublicOnly s = Stream_SetPublicOnly s"
| "applyOp (DoSubscribe chan symbol) s = Stream_Subscribe chan symbol s"
| "applyOp (DoClose r) s = snd (Stream_Close r s)"

fun runOps :: "streamOp list \<Rightarrow> Stream \<Rightarrow> Stream" where
  "runOps [] s = s"
| "runOps (x # ops) s = runOps ops (applyOp x s)"

fun isConnectOp :: "streamOp \<Rightarrow> bool" where
  "isConnectOp (DoConnect now r) = True"
| "isConnectOp x = False"

fun isLoginCall :: "wsCall \<Rightarrow> bool" where
  "isLoginCall (WsSubscribe request) = (Operation request = login)"
| "isLoginCall c = False"

section \<open>The cancel-order command (KuCoin example, first unnamed source file)\<close>

text \<open>
  Modelled from the spec: the request builder of \<^verbatim>\<open>kucoinapi\<close> is declared outside the
  given sources. A cancel request has two optional fields, set by \<^verbatim>\<open>OrderID\<close> and
  \<^verbatim>\<open>ClientOrderID\<close>. \<^verbatim>\<open>cmd.Flags().GetString\<close> returns the value of a flag or an
  error; \<^verbatim>\<open>req.Do\<close> sends the request and returns a response or an error. The command
  returns its error and the requests it has sent.
\<close>

record cancelOrderRequest =
  req_orderID :: "string option"
  req_clientOrderID :: "string option"

definition NewCancelOrderRequest :: cancelOrderRequest where
  "NewCancelOrderRequest = \<lparr>req_orderID = None, req_clientOrderID = None\<rparr>"

definition cancelOrder_Do ::
  "(cancelOrderRequest \<Rightarrow> error + 'r) \<Rightarrow> cancelOrderRequest
     \<Rightarrow> error option \<times> cancelOrderRequest list" where
  "cancelOrder_Do send req =
     (case send req of
        Inl err \<Rightarrow> (Some err, [req])
      | Inr response \<Rightarrow> (None, [req]))"

definition cancelOrderCmd_RunE ::
  "(string \<Rightarrow> error + string) \<Rightarrow> (cancelOrderRequest \<Rightarrow> error + 'r)
     \<Rightarrow> error option \<times> cancelOrderRequest list" where
  "cancelOrderCmd_RunE getString send =
     (let req = NewCancelOrderRequest
      in case getString ''order-id'' of
           Inl err \<Rightarrow> (Some err, [])
         | Inr orderID \<Rightarrow>
             (case getString ''client-order-id'' of
                Inl err \<Rightarrow> (Some err, [])
              | Inr clientOrderID \<Rightarrow>
                  if length orderID > 0
                  then cancelOrder_Do send (req\<lparr>req_orderID := Some orderID\<rparr>)
                  else if length clientOrderID > 0
                  then cancelOrder_Do send (req\<lparr>req_clientOrderID := Some clientOrderID\<rparr>)
                  else (Some (Error ''either order id or client order id is required''), [])))"

section \<open>Example inputs\<close>

definition market_BTCUSDT :: market where
  "market_BTCUSDT = \<lparr>Symbol = ''BTCUSDT'', BaseCurrency = ''BTC'', QuoteCurrency = ''USDT''\<rparr>"

definition market_ETHUSDT :: market where
  "market_ETHUSDT = \<lparr>Symbol = ''ETHUSDT'', BaseCurrency = ''ETH'', QuoteCurrency = ''USDT''\<rparr>"

definition sessionA :: session where
  "sessionA = \<lparr>Name = ''A'', Exchange = ''exA'', IsolatedMargin = False,
     IsolatedMarginSymbol = [], InitResult = None,
     Balances = [''USDT'' \<mapsto> 1, ''BTC'' \<mapsto> 1], Markets = [market_BTCUSDT]\<rparr>"

definition sessionB :: session where
  "sessionB = \<lparr>Name = ''B'', Exchange = ''exB'', IsolatedMargin = False,
     IsolatedMarginSymbol = [], InitResult = None,
     Balances = [''USDT'' \<mapsto> 1, ''ETH'' \<mapsto> 1], Markets = [market_ETHUSDT]\<rparr>"

text \<open>A session that owes its base currency: the total of BTC is negative.\<close>

definition sessionDebt :: session where
  "sessionDebt = \<lparr>Name = ''D'', Exchange = ''exD'', IsolatedMargin = False,
     IsolatedMarginSymbol = [], InitResult = None,
     Balances = [''USDT'' \<mapsto> 1, ''BTC'' \<mapsto> - 1], Markets = [market_BTCUSDT]\<rparr>"

text \<open>An isolated-margin session fixed to ETHUSDT.\<close>

definition sessionMargin :: session where
  "sessionMargin = \<lparr>Name = ''M'', Exchange = ''exM'', IsolatedMargin = True,
     IsolatedMarginSymbol = ''ETHUSDT'', InitResult = None,
     Balances = Map.empty, Markets = []\<rparr>"

text \<open>
  Two engines: one that never fails, and one that counts its calls and fails on the
  call with number \<open>k\<close> (counted from 0).
\<close>

definition alwaysOk :: "unit engine" where
  "alwaysOk c st = (None, st)"

definition failsOnCall :: "nat \<Rightarrow> nat engine" where
  "failsOnCall k c n = (if n = k then Some (Error ''boom'') else None, Suc n)"


text \<open>
  Flag values for the cancel command: both ids given, only the client order id given,
  neither given; and a transport that accepts every request.
\<close>

definition flagsBoth :: "string \<Rightarrow> error + string" where
  "flagsBoth name = (if name = ''order-id'' then Inr ''o1'' else Inr ''c1'')"

definition flagsClientOnly :: "string \<Rightarrow> error + string" where
  "flagsClientOnly name = (if name = ''order-id'' then Inr [] else Inr ''c1'')"

definition flagsNone :: "string \<Rightarrow> error + string" where
  "flagsNone name = Inr []"

definition sendOk :: "cancelOrderRequest \<Rightarrow> error + unit" where
  "sendOk req = Inr ()"

section \<open>Symbol discovery\<close>

lemma stringSliceContains_set: "stringSliceContains xs n \<longleftrightarrow> n \<in> set xs"
  by (induction xs) auto

lemma hasPositive_iff: "hasPositive bal c \<longleftrightarrow> (\<exists>a. bal c = Some a \<and> 0 < a)"
  by (simp add: hasPositive_def split: option.splits)

lemma hasNonZero_iff: "hasNonZero bal c \<longleftrightarrow> (\<exists>a. bal c = Some a \<and> a \<noteq> 0)"
  by (simp add: hasNonZero_def split: option.splits)

lemma set_collectFiatAssets:
  "set (collectFiatAssets bal cs acc) = set acc \<union> {c \<in> set cs. hasPositive bal c}"
  by (induction cs arbitrary: acc) (auto simp: hasPositive_iff split: option.splits)

lemma set_collectSymbols:
  "set (collectSymbols bal fa ms acc) =
     set acc \<union> {Symbol m | m. m \<in> set ms \<and> QuoteCurrency m \<in> set fa \<and>
                   hasNonZero bal (BaseCurrency m)}"
proof (induction ms arbitrary: acc)
  case Nil
  then show ?case by simp
next
  case (Cons m ms)
  show ?case
    by (auto simp: Cons.IH stringSliceContains_set symbolMap_store_def hasNonZero_iff
             split: option.splits)
qed

lemma distinct_collectSymbols:
  "distinct acc \<Longrightarrow> distinct (collectSymbols bal fa ms acc)"
  by (induction ms arbitrary: acc) (auto simp: symbolMap_store_def split: option.splits)

lemma set_possibleSymbols:
  "set (possibleSymbols bal ms) =
     {Symbol m | m. m \<in> set ms \<and> QuoteCurrency m \<in> fiatAssetSet bal \<and>
                   hasNonZero bal (BaseCurrency m)}"
  by (simp add: possibleSymbols_def set_collectSymbols set_collectFiatAssets fiatAssetSet_def)

lemma distinct_possibleSymbols: "distinct (possibleSymbols bal ms)"
  by (simp add: possibleSymbols_def distinct_collectSymbols)

text \<open>
  C1, as the code has it: when \<^verbatim>\<open>Init\<close> succeeds, \<^verbatim>\<open>findPossibleSymbols\<close> returns no
  error and a list without repetitions whose elements are exactly the symbols of the
  session's markets whose quote currency is in the fiat-asset set (a reference currency
  present in the balances with a strictly positive total) and whose base currency is
  present in the balances with a total that is not zero.
\<close>

theorem findPossibleSymbols_exact:
  assumes "InitResult s = None"
  shows "\<exists>symbols. fst (findPossibleSymbols s) = Inr symbols \<and> distinct symbols \<and>
           set symbols =
             {Symbol m | m. m \<in> set (Markets s) \<and>
                QuoteCurrency m \<in> fiatAssetSet (Balances s) \<and>
                hasNonZero (Balances s) (BaseCurrency m)}"
  using assms
  by (simp add: findPossibleSymbols_def set_possibleSymbols distinct_possibleSymbols)

theorem findPossibleSymbols_exact_witness:
  "InitResult sessionA = None \<and>
   (\<exists>symbols. fst (findPossibleSymbols sessionA) = Inr symbols \<and> distinct symbols \<and>
      set symbols =
        {Symbol m | m. m \<in> set (Markets sessionA) \<and>
           QuoteCurrency m \<in> fiatAssetSet (Balances sessionA) \<and>
           hasNonZero (Balances sessionA) (BaseCurrency m)})"
proof -
  have h: "InitResult sessionA = None" by (simp add: sessionA_def)
  from findPossibleSymbols_exact[OF h] h show ?thesis by simp
qed

text \<open>
  C1, as the claim states it, asks for a strictly positive total of the base currency.
  A session with a negative BTC total and a positive USDT total gets BTCUSDT.
\<close>

theorem findPossibleSymbols_positive_base_counterexample:
  "fst (findPossibleSymbols sessionDebt) = Inr [''BTCUSDT''] \<and>
   Markets sessionDebt = [market_BTCUSDT] \<and>
   Symbol market_BTCUSDT = ''BTCUSDT'' \<and>
   BaseCurrency market_BTCUSDT = ''BTC'' \<and>
   Balances sessionDebt ''BTC'' = Some (- 1) \<and>
   \<not> hasPositive (Balances sessionDebt) ''BTC''"
  by (simp add: findPossibleSymbols_def sessionDebt_def market_BTCUSDT_def possibleSymbols_def
        fiatCurrencies_def symbolMap_store_def hasPositive_def)

section \<open>The orchestrator stops at the first error\<close>



lemma okCalls_Nil [simp]: "okCalls t [] = []"
  by (simp add: okCalls_def)

lemma engineEvents_okCalls [simp]: "engineEvents (okCalls t ps) = okCalls t ps"
  by (induction ps) (simp_all add: okCalls_def engineEvents_def)




lemma syncSessionSymbol_calls:
  "syncSessionSymbol eng s y t st =
     (case eng (tradesCall t (s, y)) st of
        (Some err, st1) \<Rightarrow> (Some err, st1, [EngineCall (tradesCall t (s, y)) (Some err)])
      | (None, st1) \<Rightarrow>
          (case eng (ordersCall t (s, y)) st1 of
             (r, st2) \<Rightarrow> (r, st2, [EngineCall (tradesCall t (s, y)) None,
                                    EngineCall (ordersCall t (s, y)) r])))"
  by (simp add: syncSessionSymbol_def tradesCall_def ordersCall_def Let_def
           split: prod.splits option.splits)












section \<open>One pair: trades before orders, isolated margin\<close>

text \<open>
  C6: \<^verbatim>\<open>syncSessionSymbol\<close> calls \<^verbatim>\<open>SyncTrades\<close> first, on the engine state it was
  given. If that call returns an error, the error is returned and \<^verbatim>\<open>SyncOrders\<close> is
  not called. Otherwise \<^verbatim>\<open>SyncOrders\<close> is called once, on the engine state that
  \<^verbatim>\<open>SyncTrades\<close> left behind when it returned, and its result is the result of the
  function.
\<close>

theorem syncSessionSymbol_trades_then_orders:
  assumes "syncSessionSymbol eng s y t st = (res, st', tr)"
  shows "\<exists>r1 st1. eng (tradesCall t (s, y)) st = (r1, st1) \<and>
           (r1 \<noteq> None \<longrightarrow>
              res = r1 \<and> st' = st1 \<and> tr = [EngineCall (tradesCall t (s, y)) r1]) \<and>
           (r1 = None \<longrightarrow>
              eng (ordersCall t (s, y)) st1 = (res, st') \<and>
              tr = [EngineCall (tradesCall t (s, y)) None,
                    EngineCall (ordersCall t (s, y)) res])"
  using assms unfolding syncSessionSymbol_calls
  by (auto split: prod.splits option.splits)

theorem syncSessionSymbol_trades_then_orders_witness:
  "syncSessionSymbol (failsOnCall 1) sessionA ''BTCUSDT'' 0 0 =
     (Some (Error ''boom''), 2,
      [EngineCall (SyncTrades ''exA'' ''BTCUSDT'' 0) None,
       EngineCall (SyncOrders ''exA'' ''BTCUSDT'' 0) (Some (Error ''boom''))]) \<and>
   (\<exists>r1 st1. failsOnCall 1 (tradesCall 0 (sessionA, ''BTCUSDT'')) 0 = (r1, st1) \<and>
      (r1 \<noteq> None \<longrightarrow>
         Some (Error ''boom'') = r1 \<and> 2 = st1 \<and>
         [EngineCall (SyncTrades ''exA'' ''BTCUSDT'' 0) None,
          EngineCall (SyncOrders ''exA'' ''BTCUSDT'' 0) (Some (Error ''boom''))] =
         [EngineCall (tradesCall 0 (sessionA, ''BTCUSDT'')) r1]) \<and>
      (r1 = None \<longrightarrow>
         failsOnCall 1 (ordersCall 0 (sessionA, ''BTCUSDT'')) st1 = (Some (Error ''boom''), 2) \<and>
         [EngineCall (SyncTrades ''exA'' ''BTCUSDT'' 0) None,
          EngineCall (SyncOrders ''exA'' ''BTCUSDT'' 0) (Some (Error ''boom''))] =
         [EngineCall (tradesCall 0 (sessionA, ''BTCUSDT'')) None,
          EngineCall (ordersCall 0 (sessionA, ''BTCUSDT'')) (Some (Error ''boom''))]))"
proof -
  have run: "syncSessionSymbol (failsOnCall 1) sessionA ''BTCUSDT'' 0 0 =
     (Some (Error ''boom''), 2,
      [EngineCall (SyncTrades ''exA'' ''BTCUSDT'' 0) None,
       EngineCall (SyncOrders ''exA'' ''BTCUSDT'' 0) (Some (Error ''boom''))])"
    by (simp add: syncSessionSymbol_def failsOnCall_def sessionA_def Let_def)
  from syncSessionSymbol_trades_then_orders[OF run] run show ?thesis
    by (simp only: simp_thms)
qed

text \<open>
  C7: for a session whose isolated-margin flag is set, whatever symbol is requested,
  \<^verbatim>\<open>syncSessionSymbol\<close> calls the engine at least once, and every call it makes is
  \<^verbatim>\<open>SyncTrades\<close> or \<^verbatim>\<open>SyncOrders\<close> on the session's isolated-margin symbol; the whole
  outcome is the one of a request for that symbol.
\<close>

theorem syncSessionSymbol_isolated_margin:
  assumes "IsolatedMargin s"
    and "syncSessionSymbol eng s y t st = (res, st', tr)"
  shows "tr \<noteq> [] \<and>
         hd tr = EngineCall (SyncTrades (Exchange s) (IsolatedMarginSymbol s) t)
                   (fst (eng (SyncTrades (Exchange s) (IsolatedMarginSymbol s) t) st)) \<and>
         (\<forall>c r. EngineCall c r \<in> set tr \<longrightarrow>
            c = SyncTrades (Exchange s) (IsolatedMarginSymbol s) t \<or>
            c = SyncOrders (Exchange s) (IsolatedMarginSymbol s) t) \<and>
         (\<forall>n r. InitCall n r \<notin> set tr) \<and>
         (res = None \<longrightarrow>
            tr = [EngineCall (SyncTrades (Exchange s) (IsolatedMarginSymbol s) t) None,
                  EngineCall (SyncOrders (Exchange s) (IsolatedMarginSymbol s) t) None]) \<and>
         syncSessionSymbol eng s (IsolatedMarginSymbol s) t st = (res, st', tr)"
  using assms
  by (auto simp: syncSessionSymbol_def Let_def split: prod.splits option.splits)

theorem syncSessionSymbol_isolated_margin_witness:
  "IsolatedMargin sessionMargin \<and>
   syncSessionSymbol alwaysOk sessionMargin ''BTCUSDT'' 0 () =
     (None, (), [EngineCall (SyncTrades ''exM'' ''ETHUSDT'' 0) None,
                 EngineCall (SyncOrders ''exM'' ''ETHUSDT'' 0) None]) \<and>
   IsolatedMarginSymbol sessionMargin = ''ETHUSDT'' \<and>
   [EngineCall (SyncTrades ''exM'' ''ETHUSDT'' 0) None,
    EngineCall (SyncOrders ''exM'' ''ETHUSDT'' 0) None] =
   [EngineCall (SyncTrades (Exchange sessionMargin) (IsolatedMarginSymbol sessionMargin) 0) None,
    EngineCall (SyncOrders (Exchange sessionMargin) (IsolatedMarginSymbol sessionMargin) 0) None] \<and>
   syncSessionSymbol alwaysOk sessionMargin (IsolatedMarginSymbol sessionMargin) 0 () =
     (None, (), [EngineCall (SyncTrades ''exM'' ''ETHUSDT'' 0) None,
                 EngineCall (SyncOrders ''exM'' ''ETHUSDT'' 0) None])"
proof -
  have m: "IsolatedMargin sessionMargin" by (simp add: sessionMargin_def)
  have run: "syncSessionSymbol alwaysOk sessionMargin ''BTCUSDT'' 0 () =
     (None, (), [EngineCall (SyncTrades ''exM'' ''ETHUSDT'' 0) None,
                 EngineCall (SyncOrders ''exM'' ''ETHUSDT'' 0) None])"
    by (simp add: syncSessionSymbol_def alwaysOk_def sessionMargin_def Let_def)
  have x: "IsolatedMarginSymbol sessionMargin = ''ETHUSDT''" by (simp add: sessionMargin_def)
  from syncSessionSymbol_isolated_margin[OF m run] m run x show ?thesis
    by blast
qed

section \<open>Discovery in the loop over all sessions\<close>

lemma syncSessionSymbol_no_InitCall:
  "syncSessionSymbol eng s y t st = (res, st', tr) \<Longrightarrow> InitCall n r \<notin> set tr"
  by (auto simp: syncSessionSymbol_def Let_def split: prod.splits option.splits)

lemma syncSymbols_no_InitCall:
  "syncSymbols eng s t ys st = (res, st', tr) \<Longrightarrow> InitCall n r \<notin> set tr"
proof (induction ys arbitrary: st res st' tr)
  case Nil
  then show ?case by simp
next
  case (Cons y ys)
  obtain r1 st1 tr1 where h: "syncSessionSymbol eng s y t st = (r1, st1, tr1)"
    by (metis prod_cases3)
  have n1: "InitCall n r \<notin> set tr1" by (rule syncSessionSymbol_no_InitCall[OF h])
  show ?case
  proof (cases r1)
    case (Some err)
    with Cons.prems h have "tr = tr1" by simp
    with n1 show ?thesis by simp
  next
    case None
    obtain r2 st2 tr2 where h2: "syncSymbols eng s t ys st1 = (r2, st2, tr2)"
      by (metis prod_cases3)
    from Cons.prems h None h2 have "tr = tr1 @ tr2" by simp
    with n1 Cons.IH[OF h2] show ?thesis by simp
  qed
qed

lemma syncAllSessions_explicit_no_InitCall:
  "symbols \<noteq> [] \<Longrightarrow> syncAllSessions eng symbol t symbols env st = (res, st', tr) \<Longrightarrow>
     InitCall n r \<notin> set tr"
proof (induction env arbitrary: st res st' tr)
  case Nil
  then show ?case by simp
next
  case (Cons s env)
  have r0: "resolveSymbols s symbols = (Inr symbols, [])"
    using Cons.prems(1) by (simp add: resolveSymbols_def)
  obtain r1 st1 tr1 where h1: "syncSymbols eng s t symbols st = (r1, st1, tr1)"
    by (metis prod_cases3)
  have n1: "InitCall n r \<notin> set tr1" by (rule syncSymbols_no_InitCall[OF h1])
  show ?case
  proof (cases r1)
    case (Some err)
    with Cons.prems(2) r0 h1 have "tr = tr1" by simp
    with n1 show ?thesis by simp
  next
    case None
    obtain r2 st2 tr2 where h2: "syncSessionSymbol eng s symbol t st1 = (r2, st2, tr2)"
      by (metis prod_cases3)
    have n2: "InitCall n r \<notin> set tr2" by (rule syncSessionSymbol_no_InitCall[OF h2])
    show ?thesis
    proof (cases r2)
      case (Some err)
      with Cons.prems(2) r0 h1 None h2 have "tr = tr1 @ tr2" by simp
      with n1 n2 show ?thesis by simp
    next
      case None2: None
      obtain r3 st3 tr3 where h3: "syncAllSessions eng symbol t symbols env st2 = (r3, st3, tr3)"
        by (metis prod_cases3)
      from Cons.prems(2) r0 h1 None h2 None2 h3 have "tr = tr1 @ tr2 @ tr3" by simp
      with n1 n2 Cons.IH[OF Cons.prems(1) h3] show ?thesis by simp
    qed
  qed
qed

text \<open>
  With an explicit symbol, no run of \<^verbatim>\<open>RunE\<close> calls \<^verbatim>\<open>Init\<close>: discovery is never
  called, for one named session as for all sessions.
\<close>

lemma explicit_symbol_skips_discovery:
  assumes "symbol \<noteq> []"
    and "SyncCmd_RunE env sessionName symbol t eng st = (res, st', tr)"
  shows "InitCall n r \<notin> set tr"
proof (cases "sessionName = []")
  case True
  with assms have "syncAllSessions eng symbol t [symbol] env st = (res, st', tr)"
    by (simp add: SyncCmd_RunE_def)
  then show ?thesis by (rule syncAllSessions_explicit_no_InitCall[rotated]) simp
next
  case False
  show ?thesis
  proof (cases "environ_Session env sessionName")
    case None
    with False assms show ?thesis by (auto simp: SyncCmd_RunE_def)
  next
    case (Some s)
    obtain r1 st1 tr1 where h1: "syncSymbols eng s t [symbol] st = (r1, st1, tr1)"
      by (metis prod_cases3)
    from False Some assms h1 have "tr = tr1"
      by (simp add: SyncCmd_RunE_def resolveSymbols_def)
    with syncSymbols_no_InitCall[OF h1] show ?thesis by simp
  qed
qed

text \<open>
  C3 on two sessions, no explicit symbol, no session name, an engine that never fails.
  Discovery for the second session alone gives ETHUSDT, but the run calls \<^verbatim>\<open>Init\<close>
  once, for the first session only, and synchronises the second session under the
  first session's symbol BTCUSDT (and both under the empty flag value, line 134).
\<close>

theorem discovery_not_repeated_for_second_session:
  "SyncCmd_RunE [sessionA, sessionB] [] [] 0 alwaysOk () =
     (None, (),
      [InitCall ''A'' None,
       EngineCall (SyncTrades ''exA'' ''BTCUSDT'' 0) None,
       EngineCall (SyncOrders ''exA'' ''BTCUSDT'' 0) None,
       EngineCall (SyncTrades ''exA'' [] 0) None,
       EngineCall (SyncOrders ''exA'' [] 0) None,
       EngineCall (SyncTrades ''exB'' ''BTCUSDT'' 0) None,
       EngineCall (SyncOrders ''exB'' ''BTCUSDT'' 0) None,
       EngineCall (SyncTrades ''exB'' [] 0) None,
       EngineCall (SyncOrders ''exB'' [] 0) None]) \<and>
   findPossibleSymbols sessionA = (Inr [''BTCUSDT''], [InitCall ''A'' None]) \<and>
   findPossibleSymbols sessionB = (Inr [''ETHUSDT''], [InitCall ''B'' None])"
  by (simp add: SyncCmd_RunE_def resolveSymbols_def findPossibleSymbols_def
        syncSessionSymbol_def alwaysOk_def sessionA_def sessionB_def Let_def
        possibleSymbols_def fiatCurrencies_def symbolMap_store_def
        market_BTCUSDT_def market_ETHUSDT_def)

section \<open>The stream: public-only mode and login\<close>

lemma publicOnly_applyOp: "publicOnly s \<noteq> 0 \<Longrightarrow> publicOnly (applyOp x s) \<noteq> 0"
  by (cases x)
     (simp_all add: Stream_Connect_def Stream_SetPublicOnly_def Stream_Subscribe_def
        Stream_Close_def wsService_Subscribe_def Let_def split: option.splits)

lemma logins_applyOp_public:
  "publicOnly s \<noteq> 0 \<Longrightarrow>
     filter isLoginCall (wsCalls (applyOp x s)) = filter isLoginCall (wsCalls s)"
  by (cases x)
     (simp_all add: Stream_Connect_def Stream_SetPublicOnly_def Stream_Subscribe_def
        Stream_Close_def wsService_Subscribe_def Let_def split: option.splits)

lemma logins_runOps_public:
  "publicOnly s \<noteq> 0 \<Longrightarrow>
     filter isLoginCall (wsCalls (runOps ops s)) = filter isLoginCall (wsCalls s)"
proof (induction ops arbitrary: s)
  case Nil
  then show ?case by simp
next
  case (Cons x ops)
  have "filter isLoginCall (wsCalls (runOps ops (applyOp x s))) =
        filter isLoginCall (wsCalls (applyOp x s))"
    by (rule Cons.IH) (rule publicOnly_applyOp[OF Cons.prems])
  then show ?case by (simp add: logins_applyOp_public[OF Cons.prems])
qed

lemma logins_applyOp_no_connect:
  "\<not> isConnectOp x \<Longrightarrow>
     filter isLoginCall (wsCalls (applyOp x s)) = filter isLoginCall (wsCalls s)"
  by (cases x)
     (simp_all add: Stream_SetPublicOnly_def Stream_Subscribe_def
        Stream_Close_def wsService_Subscribe_def Let_def)

lemma logins_runOps_no_connect:
  "\<forall>x \<in> set ops. \<not> isConnectOp x \<Longrightarrow>
     filter isLoginCall (wsCalls (runOps ops s)) = filter isLoginCall (wsCalls s)"
  by (induction ops arbitrary: s) (simp_all add: logins_applyOp_no_connect)

lemma runOps_append: "runOps (xs @ ys) s = runOps ys (runOps xs s)"
  by (induction xs arbitrary: s) simp_all

lemma fields_applyOp:
  "wsService_key (applyOp x s) = wsService_key s \<and>
   wsService_secret (applyOp x s) = wsService_secret s \<and>
   (x \<noteq> DoSetPublicOnly \<longrightarrow> publicOnly (applyOp x s) = publicOnly s)"
  by (cases x)
     (simp_all add: Stream_Connect_def Stream_SetPublicOnly_def Stream_Subscribe_def
        Stream_Close_def wsService_Subscribe_def Let_def split: option.splits)

lemma fields_runOps:
  "DoSetPublicOnly \<notin> set ops \<Longrightarrow>
   wsService_key (runOps ops s) = wsService_key s \<and>
   wsService_secret (runOps ops s) = wsService_secret s \<and>
   publicOnly (runOps ops s) = publicOnly s"
proof (induction ops arbitrary: s)
  case Nil
  then show ?case by simp
next
  case (Cons x ops)
  from Cons.prems have x: "x \<noteq> DoSetPublicOnly" and r: "DoSetPublicOnly \<notin> set ops" by auto
  from Cons.IH[OF r, of "applyOp x s"] fields_applyOp[of x s] x show ?case by simp
qed

text \<open>
  C4: a stream made by \<^verbatim>\<open>NewStream\<close> on which \<^verbatim>\<open>SetPublicOnly\<close> is called before any
  \<^verbatim>\<open>Connect\<close> never enqueues a login request, whatever is called on it afterwards
  (any number of \<^verbatim>\<open>Connect\<close>, \<^verbatim>\<open>Subscribe\<close>, \<^verbatim>\<open>SetPublicOnly\<close>, \<^verbatim>\<open>Close\<close>). On a
  stream on which \<^verbatim>\<open>SetPublicOnly\<close> was never called, one call of \<^verbatim>\<open>Connect\<close> makes
  exactly two calls on the service, in this order: it enqueues the login request built
  from the key, the secret and the current time, then it establishes the transport.
\<close>

theorem stream_login_iff_not_public_only:
  "((\<forall>x \<in> set before. \<not> isConnectOp x) \<longrightarrow>
      filter isLoginCall
        (wsCalls (runOps (before @ DoSetPublicOnly # after) (NewStream key secret))) = []) \<and>
   (DoSetPublicOnly \<notin> set ops \<longrightarrow>
      wsCalls (snd (Stream_Connect now r (runOps ops (NewStream key secret)))) =
        wsCalls (runOps ops (NewStream key secret)) @
          [WsSubscribe (newLoginRequest key secret now), WsConnect] \<and>
      isLoginCall (WsSubscribe (newLoginRequest key secret now)) \<and>
      fst (Stream_Connect now r (runOps ops (NewStream key secret))) = r)"
proof (intro conjI impI)
  assume a: "\<forall>x \<in> set before. \<not> isConnectOp x"
  let ?s = "Stream_SetPublicOnly (runOps before (NewStream key secret))"
  have p: "publicOnly ?s \<noteq> 0" by (simp add: Stream_SetPublicOnly_def)
  have "filter isLoginCall (wsCalls (runOps after ?s)) = filter isLoginCall (wsCalls ?s)"
    by (rule logins_runOps_public[OF p])
  also have "\<dots> = filter isLoginCall (wsCalls (runOps before (NewStream key secret)))"
    by (simp add: Stream_SetPublicOnly_def)
  also have "\<dots> = filter isLoginCall (wsCalls (NewStream key secret))"
    by (rule logins_runOps_no_connect[OF a])
  also have "\<dots> = []" by (simp add: NewStream_def)
  finally show "filter isLoginCall
        (wsCalls (runOps (before @ DoSetPublicOnly # after) (NewStream key secret))) = []"
    by (simp add: runOps_append)
next
  assume b: "DoSetPublicOnly \<notin> set ops"
  from fields_runOps[OF b, of "NewStream key secret"]
  have f: "wsService_key (runOps ops (NewStream key secret)) = key"
    "wsService_secret (runOps ops (NewStream key secret)) = secret"
    "publicOnly (runOps ops (NewStream key secret)) = 0"
    by (simp_all add: NewStream_def)
  show "wsCalls (snd (Stream_Connect now r (runOps ops (NewStream key secret)))) =
        wsCalls (runOps ops (NewStream key secret)) @
          [WsSubscribe (newLoginRequest key secret now), WsConnect]"
    by (simp add: Stream_Connect_def wsService_Subscribe_def Let_def f split: option.splits)
  show "isLoginCall (WsSubscribe (newLoginRequest key secret now))"
    by (simp add: newLoginRequest_def)
  show "fst (Stream_Connect now r (runOps ops (NewStream key secret))) = r"
    by (simp add: Stream_Connect_def Let_def split: option.splits)
qed

theorem stream_login_iff_not_public_only_witness:
  "\<not> isConnectOp (DoSubscribe BookChannel ''btc-usdt'') \<and>
   filter isLoginCall
     (wsCalls (runOps ([DoSubscribe BookChannel ''btc-usdt''] @ DoSetPublicOnly #
                 [DoConnect 5 None, DoClose None, DoConnect 6 None])
        (NewStream ''key'' ''secret''))) = [] \<and>
   DoSetPublicOnly \<notin> set [DoSubscribe BookChannel ''btc-usdt''] \<and>
   wsCalls (snd (Stream_Connect 5 None
       (runOps [DoSubscribe BookChannel ''btc-usdt''] (NewStream ''key'' ''secret'')))) =
     wsCalls (runOps [DoSubscribe BookChannel ''btc-usdt''] (NewStream ''key'' ''secret'')) @
       [WsSubscribe (newLoginRequest ''key'' ''secret'' 5), WsConnect]"
proof -
  have h1: "\<forall>x \<in> set [DoSubscribe BookChannel ''btc-usdt'']. \<not> isConnectOp x" by simp
  have h2: "DoSetPublicOnly \<notin> set [DoSubscribe BookChannel ''btc-usdt'']" by simp
  have h3: "\<not> isConnectOp (DoSubscribe BookChannel ''btc-usdt'')" by simp
  from stream_login_iff_not_public_only[of "[DoSubscribe BookChannel ''btc-usdt'']"
      "[DoConnect 5 None, DoClose None, DoConnect 6 None]" "''key''" "''secret''"
      "[DoSubscribe BookChannel ''btc-usdt'']" 5 None] h1 h2 h3
  show ?thesis by blast
qed

section \<open>The stream: subscriptions\<close>

lemma Stream_Subscribe_any_channel:
  "Stream_Subscribe chan symbol s = Stream_Subscribe BookChannel symbol s"
  by (simp add: Stream_Subscribe_def)

text \<open>
  C5 at the channel \<open>kline\<close>, which is not the order-book channel: \<^verbatim>\<open>Subscribe\<close> on a
  fresh stream enqueues an order-book subscribe request for the symbol.
\<close>

theorem subscribe_unsupported_channel_enqueues:
  "''kline'' \<noteq> BookChannel \<and>
   wsCalls (Stream_Subscribe ''kline'' ''btcusdt'' (NewStream ''key'' ''secret'')) =
     [WsSubscribe \<lparr>Operation = subscribe, Channel = Some orderbook,
                   Market = ''BTCUSDT'', Login = None\<rparr>]"
proof -
  have "TrimUpperString ''btcusdt'' = ''BTCUSDT''" by code_simp
  then show ?thesis
    by (simp add: BookChannel_def Stream_Subscribe_def wsService_Subscribe_def NewStream_def)
qed


section \<open>The cancel-order command\<close>

text \<open>
  C10: when both flags can be read, a non-empty \<^verbatim>\<open>--order-id\<close> is attached to the one
  request sent and \<^verbatim>\<open>--client-order-id\<close> is left out of it, empty or not; with an
  empty \<^verbatim>\<open>--order-id\<close> a non-empty \<^verbatim>\<open>--client-order-id\<close> is attached to the one request
  sent; with both empty the command returns an error and sends nothing.
\<close>

theorem cancelOrder_id_precedence:
  assumes "getString ''order-id'' = Inr orderID"
    and "getString ''client-order-id'' = Inr clientOrderID"
  shows "(orderID \<noteq> [] \<longrightarrow>
            snd (cancelOrderCmd_RunE getString send) =
              [\<lparr>req_orderID = Some orderID, req_clientOrderID = None\<rparr>]) \<and>
         (orderID = [] \<and> clientOrderID \<noteq> [] \<longrightarrow>
            snd (cancelOrderCmd_RunE getString send) =
              [\<lparr>req_orderID = None, req_clientOrderID = Some clientOrderID\<rparr>]) \<and>
         (orderID = [] \<and> clientOrderID = [] \<longrightarrow>
            cancelOrderCmd_RunE getString send =
              (Some (Error ''either order id or client order id is required''), []))"
  using assms
  by (simp add: cancelOrderCmd_RunE_def cancelOrder_Do_def NewCancelOrderRequest_def Let_def
           split: sum.splits)

theorem cancelOrder_id_precedence_witness:
  "flagsBoth ''order-id'' = Inr ''o1'' \<and> flagsBoth ''client-order-id'' = Inr ''c1'' \<and>
   snd (cancelOrderCmd_RunE flagsBoth sendOk) =
     [\<lparr>req_orderID = Some ''o1'', req_clientOrderID = None\<rparr>] \<and>
   flagsClientOnly ''order-id'' = Inr [] \<and> flagsClientOnly ''client-order-id'' = Inr ''c1'' \<and>
   snd (cancelOrderCmd_RunE flagsClientOnly sendOk) =
     [\<lparr>req_orderID = None, req_clientOrderID = Some ''c1''\<rparr>] \<and>
   flagsNone ''order-id'' = Inr [] \<and> flagsNone ''client-order-id'' = Inr [] \<and>
   cancelOrderCmd_RunE flagsNone sendOk =
     (Some (Error ''either order id or client order id is required''), [])"
proof -
  have b: "flagsBoth ''order-id'' = Inr ''o1''" "flagsBoth ''client-order-id'' = Inr ''c1''"
    by (simp_all add: flagsBoth_def)
  have c: "flagsClientOnly ''order-id'' = Inr []" "flagsClientOnly ''client-order-id'' = Inr ''c1''"
    by (simp_all add: flagsClientOnly_def)
  have n: "flagsNone ''order-id'' = Inr []" "flagsNone ''client-order-id'' = Inr []"
    by (simp_all add: flagsNone_def)
  from cancelOrder_id_precedence[OF b, of sendOk] cancelOrder_id_precedence[OF c, of sendOk]
    cancelOrder_id_precedence[OF n, of sendOk] b c n
  show ?thesis by simp
qed

end
